theory Spec2Isabelle
  imports Main
begin

section \<open>Python values shared by both programs\<close>

text \<open>
  A Python exception of class \<open>Exception\<close> (what \<open>except Exception\<close> catches), as far
  as the two programs look at it: its class, the text \<open>str(e)\<close> gives, and the two
  attributes \<open>status_code\<close> and \<open>message\<close> that the HTTP adapter reads with
  \<open>e.status_code\<close> and \<open>e.message\<close>. \<open>None\<close> stands for an attribute the exception
  object does not have (reading it raises AttributeError). A status code is an
  integer, and a message is kept as the text the f-string makes of it.
\<close>

record pyexn =
  exn_class :: string
  exn_text :: string
  status_code :: "int option"
  message :: "string option"

definition plain_exn :: "string \<Rightarrow> string \<Rightarrow> pyexn" where
  "plain_exn cls txt =
     \<lparr>exn_class = cls, exn_text = txt, status_code = None, message = None\<rparr>"

definition ValueError :: "string \<Rightarrow> pyexn" where
  "ValueError msg = plain_exn ''ValueError'' msg"

definition py_repr_key :: "string \<Rightarrow> string" where
  \<comment> \<open>\<open>repr\<close> of a dictionary key that has no quote or escape in it\<close>
  "py_repr_key k = [CHR 0x27] @ k @ [CHR 0x27]"

definition KeyError :: "string \<Rightarrow> pyexn" where
  \<comment> \<open>\<open>str(KeyError(k))\<close> is \<open>repr(k)\<close>\<close>
  "KeyError k = plain_exn ''KeyError'' (py_repr_key k)"

definition IndexError :: pyexn where
  "IndexError = plain_exn ''IndexError'' ''list index out of range''"

definition AttributeError :: "string \<Rightarrow> string \<Rightarrow> pyexn" where
  "AttributeError tyname attr =
     plain_exn ''AttributeError''
       ([CHR 0x27] @ tyname @ [CHR 0x27] @ '' object has no attribute '' @
        [CHR 0x27] @ attr @ [CHR 0x27])"

definition TypeError :: "string \<Rightarrow> pyexn" where
  "TypeError msg = plain_exn ''TypeError'' msg"

text \<open>\<open>d[k]\<close> on a dictionary and \<open>xs[0]\<close> on a list, with their failures.\<close>

definition dict_item :: "(string \<times> 'v) list \<Rightarrow> string \<Rightarrow> pyexn + 'v" where
  "dict_item d k = (case map_of d k of None \<Rightarrow> Inl (KeyError k) | Some v \<Rightarrow> Inr v)"

definition list_first :: "'a list \<Rightarrow> pyexn + 'a" where
  "list_first xs = (case xs of [] \<Rightarrow> Inl IndexError | x # _ \<Rightarrow> Inr x)"

section \<open>google/youtube/helpers.py\<close>

text \<open>
  \<open>s.strip(c)\<close> and \<open>s.split(c)\<close> for a one-character argument. \<open>split\<close> always gives
  at least one piece.
\<close>

definition py_strip :: "char \<Rightarrow> string \<Rightarrow> string" where
  "py_strip c s = rev (dropWhile (\<lambda>x. x = c) (rev (dropWhile (\<lambda>x. x = c) s)))"

fun py_split :: "char \<Rightarrow> string \<Rightarrow> string list" where
  "py_split c [] = [[]]"
| "py_split c (x # xs) =
     (if x = c then [] # py_split c xs
      else (case py_split c xs of
              [] \<Rightarrow> [[x]]
            | w # ws \<Rightarrow> (x # w) # ws))"

text \<open>The six fields of \<open>urllib.parse.ParseResult\<close>.\<close>

record parse_result =
  scheme :: string
  netloc :: string
  path :: string
  params :: string
  query :: string
  fragment :: string

text \<open>
  \<open>get_video_url\<close>. The process environment is a map from variable names to values
  (\<open>os.getenv\<close> gives \<open>None\<close> for an unset one). The two standard-library functions
  it calls are parameters: \<open>urlparse\<close> may raise (it gives a ValueError on a malformed
  bracketed host), \<open>parse_qs\<close> gives a dictionary from names to lists of values.
\<close>

definition get_video_url ::
  "(string \<Rightarrow> pyexn + parse_result) \<Rightarrow> (string \<Rightarrow> (string \<times> string list) list) \<Rightarrow>
   (string \<Rightarrow> string option) \<Rightarrow> pyexn + string" where
  "get_video_url urlparse parse_qs environ =
     (case environ ''VIDEO_URL'' of
        None \<Rightarrow> Inl (ValueError ''Error: video_url must be set'')
      | Some video_url \<Rightarrow>
          (case urlparse video_url of
             Inl e \<Rightarrow> Inl e
           | Inr parsed \<Rightarrow>
               if netloc parsed = ''www.youtube.com'' then
                 (case dict_item (parse_qs (query parsed)) ''v'' of
                    Inl e \<Rightarrow> Inl e
                  | Inr vs \<Rightarrow> list_first vs)
               else if netloc parsed = ''youtu.be'' then
                 list_first (py_split CHR ''/'' (py_strip CHR ''/'' (path parsed)))
               else Inl (ValueError (''Invalid YouTube URL: '' @ video_url))))"

section \<open>The standard library's URL functions on plain URLs\<close>

text \<open>
  A reference model of CPython 3.11's \<open>urllib.parse\<close> (\<open>urlsplit\<close>, \<open>urlparse\<close>,
  \<open>parse_qsl\<close>, \<open>parse_qs\<close>, \<open>unquote_plus\<close>), following \<open>Lib/urllib/parse.py\<close>
  step by step, for URLs that are ASCII text. Two checks that only raise or pass are
  left out: the validation of a host written in square brackets when both brackets
  are there (\<open>_check_bracketed_netloc\<close>), and the NFKC check of a non-ASCII authority
  (\<open>_checknetloc\<close>). Percent-decoding keeps the decoded bytes as they are.
  \<open>get_video_url\<close> does not depend on this model: it takes the two functions as
  parameters, and the model instantiates them on concrete URLs.
\<close>

definition c0_control_or_space :: "char \<Rightarrow> bool" where
  "c0_control_or_space c = (of_char c \<le> (32::nat))"

definition unsafe_url_byte :: "char \<Rightarrow> bool" where
  "unsafe_url_byte c = (c = CHR 0x09 \<or> c = CHR 0x0D \<or> c = CHR 0x0A)"

definition ascii_upper :: "char \<Rightarrow> bool" where
  "ascii_upper c = (65 \<le> (of_char c :: nat) \<and> (of_char c :: nat) \<le> 90)"

definition ascii_lower :: "char \<Rightarrow> bool" where
  "ascii_lower c = (97 \<le> (of_char c :: nat) \<and> (of_char c :: nat) \<le> 122)"

definition ascii_digit :: "char \<Rightarrow> bool" where
  "ascii_digit c = (48 \<le> (of_char c :: nat) \<and> (of_char c :: nat) \<le> 57)"

definition scheme_char :: "char \<Rightarrow> bool" where
  "scheme_char c =
     (ascii_lower c \<or> ascii_upper c \<or> ascii_digit c \<or>
      c = CHR ''+'' \<or> c = CHR ''-'' \<or> c = CHR ''.'')"

definition to_lower :: "char \<Rightarrow> char" where
  "to_lower c = (if ascii_upper c then char_of ((of_char c :: nat) + 32) else c)"

definition uses_params :: "string list" where
  "uses_params =
     [[], ''ftp'', ''hdl'', ''prospero'', ''http'', ''imap'', ''https'', ''shttp'',
      ''rtsp'', ''rtsps'', ''rtspu'', ''sip'', ''sips'', ''mms'', ''sftp'', ''tel'']"

definition partition_at :: "char \<Rightarrow> string \<Rightarrow> string \<times> string" where
  \<comment> \<open>\<open>s.split(c, 1)\<close> when \<open>c\<close> is in \<open>s\<close>: the text before the first \<open>c\<close> and after it\<close>
  "partition_at c s = (takeWhile (\<lambda>x. x \<noteq> c) s, drop 1 (dropWhile (\<lambda>x. x \<noteq> c) s))"

definition netloc_delim :: "char \<Rightarrow> bool" where
  "netloc_delim c = (c = CHR ''/'' \<or> c = CHR ''?'' \<or> c = CHR ''#'')"

definition urlsplit :: "string \<Rightarrow> pyexn + (string \<times> string \<times> string \<times> string \<times> string)" where
  "urlsplit url0 =
     (let url1 = filter (\<lambda>c. \<not> unsafe_url_byte c) (dropWhile c0_control_or_space url0);
          pre = takeWhile (\<lambda>c. c \<noteq> CHR '':'') url1;
          has_scheme = (CHR '':'' \<in> set url1 \<and> pre \<noteq> [] \<and>
                        (ascii_lower (hd pre) \<or> ascii_upper (hd pre)) \<and>
                        list_all scheme_char pre);
          sch = (if has_scheme then map to_lower pre else []);
          url2 = (if has_scheme then drop (length pre + 1) url1 else url1);
          has_netloc = (take 2 url2 = ''//'');
          nl = (if has_netloc then takeWhile (\<lambda>c. \<not> netloc_delim c) (drop 2 url2) else []);
          url3 = (if has_netloc then dropWhile (\<lambda>c. \<not> netloc_delim c) (drop 2 url2) else url2)
      in if has_netloc \<and> ((CHR ''['' \<in> set nl) \<noteq> (CHR '']'' \<in> set nl))
         then Inl (ValueError ''Invalid IPv6 URL'')
         else
           let (url4, frag) =
                 (if CHR ''#'' \<in> set url3 then partition_at CHR ''#'' url3 else (url3, []));
               (url5, qry) =
                 (if CHR ''?'' \<in> set url4 then partition_at CHR ''?'' url4 else (url4, []))
           in Inr (sch, nl, url5, qry, frag))"

definition splitparams :: "string \<Rightarrow> string \<times> string" where
  "splitparams url =
     (if CHR ''/'' \<in> set url then
        (let k = length url - 1 - length (takeWhile (\<lambda>c. c \<noteq> CHR ''/'') (rev url));
             tl = drop k url
         in if CHR '';'' \<in> set tl
            then (let i = k + length (takeWhile (\<lambda>c. c \<noteq> CHR '';'') tl)
                  in (take i url, drop (i + 1) url))
            else (url, []))
      else partition_at CHR '';'' url)"

definition urlparse :: "string \<Rightarrow> pyexn + parse_result" where
  "urlparse url =
     (case urlsplit url of
        Inl e \<Rightarrow> Inl e
      | Inr (sch, nl, p, qry, frag) \<Rightarrow>
          (let (p', prm) =
                 (if sch \<in> set uses_params \<and> CHR '';'' \<in> set p then splitparams p
                  else (p, []))
           in Inr \<lparr>scheme = sch, netloc = nl, path = p', params = prm,
                    query = qry, fragment = frag\<rparr>))"

definition hex_digit :: "char \<Rightarrow> bool" where
  "hex_digit c =
     (ascii_digit c \<or>
      (65 \<le> (of_char c :: nat) \<and> (of_char c :: nat) \<le> 70) \<or>
      (97 \<le> (of_char c :: nat) \<and> (of_char c :: nat) \<le> 102))"

definition hex_value :: "char \<Rightarrow> nat" where
  "hex_value c =
     (if ascii_digit c then of_char c - 48
      else if ascii_upper c then of_char c - 55
      else of_char c - 87)"

fun unquote :: "string \<Rightarrow> string" where
  "unquote (p # a # b # rest) =
     (if p = CHR ''%'' \<and> hex_digit a \<and> hex_digit b
      then char_of (16 * hex_value a + hex_value b) # unquote rest
      else p # unquote (a # b # rest))"
| "unquote s = s"

definition unquote_plus :: "string \<Rightarrow> string" where
  "unquote_plus s = unquote (map (\<lambda>c. if c = CHR ''+'' then CHR '' '' else c) s)"

definition parse_qsl :: "string \<Rightarrow> (string \<times> string) list" where
  "parse_qsl qs =
     (if qs = [] then []
      else concat (map (\<lambda>name_value.
             if name_value = [] then []
             else (let (name, v) = partition_at CHR ''='' name_value
                   in if v = [] then [] else [(unquote_plus name, unquote_plus v)]))
           (py_split CHR ''&'' qs)))"

fun dict_append :: "(string \<times> string list) list \<Rightarrow> string \<Rightarrow> string \<Rightarrow> (string \<times> string list) list" where
  "dict_append [] k v = [(k, [v])]"
| "dict_append ((k', vs) # d) k v =
     (if k' = k then (k', vs @ [v]) # d else (k', vs) # dict_append d k v)"

definition parse_qs :: "string \<Rightarrow> (string \<times> string list) list" where
  "parse_qs qs = foldl (\<lambda>d (name, v). dict_append d name v) [] (parse_qsl qs)"

section \<open>azure-openai-model-provider/main.py\<close>

subsection \<open>Values\<close>

text \<open>
  What \<open>json.loads\<close> returns. \<open>'f\<close> is Python's float. A dictionary is an association
  list read with \<open>map_of\<close>. The values form a tree: no two places of it share a list
  or a dictionary, so changing one list in place changes no other value.
\<close>

datatype 'f json =
    JNull
  | JBool bool
  | JInt int
  | JFloat 'f
  | JStr string
  | JArr "'f json list"
  | JObj "(string \<times> 'f json) list"

definition type_name :: "'f json \<Rightarrow> string" where
  "type_name v =
     (case v of
        JNull \<Rightarrow> ''NoneType'' | JBool _ \<Rightarrow> ''bool'' | JInt _ \<Rightarrow> ''int''
      | JFloat _ \<Rightarrow> ''float'' | JStr _ \<Rightarrow> ''str'' | JArr _ \<Rightarrow> ''list''
      | JObj _ \<Rightarrow> ''dict'')"

definition py_truth :: "('f \<Rightarrow> bool) \<Rightarrow> 'f json \<Rightarrow> bool" where
  \<comment> \<open>\<open>bool(v)\<close>, as \<open>not v\<close> tests it; the first argument is \<open>bool\<close> on a float\<close>
  "py_truth float_truth v =
     (case v of
        JNull \<Rightarrow> False | JBool b \<Rightarrow> b | JInt i \<Rightarrow> i \<noteq> 0
      | JFloat x \<Rightarrow> float_truth x | JStr s \<Rightarrow> s \<noteq> [] | JArr xs \<Rightarrow> xs \<noteq> []
      | JObj d \<Rightarrow> d \<noteq> [])"

definition py_getitem :: "'f json \<Rightarrow> string \<Rightarrow> pyexn + 'f json" where
  \<comment> \<open>\<open>data[k]\<close> for a string \<open>k\<close> (the TypeError texts are CPython 3.11's)\<close>
  "py_getitem data k =
     (case data of
        JObj d \<Rightarrow> dict_item d k
      | JArr _ \<Rightarrow> Inl (TypeError ''list indices must be integers or slices, not str'')
      | JStr _ \<Rightarrow>
          Inl (TypeError (''string indices must be integers, not '' @
                          [CHR 0x27] @ ''str'' @ [CHR 0x27]))
      | _ \<Rightarrow>
          Inl (TypeError ([CHR 0x27] @ type_name data @ [CHR 0x27] @
                          '' object is not subscriptable'')))"

text \<open>The keyword arguments of \<open>azure_client.chat.completions.create\<close>
  (\<open>kw_model\<close> is \<open>model=\<close>, and so on); \<open>None\<close> is \<open>NOT_GIVEN\<close>.\<close>

record 'f chat_call =
  kw_model :: "'f json"
  kw_messages :: "'f json list"
  kw_tools :: "'f json option"
  kw_tool_choice :: "string option"
  kw_temperature :: "'f option"
  kw_stream :: "'f json"

datatype 'f upstream_call =
    ChatCompletionsCreate "'f chat_call"
  | EmbeddingsCreate "'f json" "'f json"

text \<open>
  What the program takes from outside: the library functions it calls and the upstream
  service behind \<open>azure_client\<close>. \<open>'o\<close> is the object an upstream call returns,
  \<open>'c\<close> a chunk of a stream. Iterating over a returned object gives the chunks it
  yields and, when the iteration raises, the exception after them.
  \<open>jsonable_encoder\<close> may raise on the object it is given. \<open>render\<close> is
  \<open>JSONResponse.render\<close>, which the constructor of a JSON response runs on its
  content: it gives the exception raised, if any (\<open>json.dumps\<close> refuses a float that
  is not finite, for one); the bytes it returns are not kept, a JSON response is
  known by its content.
\<close>

record ('f, 'o, 'c) outside =
  json_loads :: "string \<Rightarrow> pyexn + 'f json"
  py_float :: "'f json \<Rightarrow> pyexn + 'f"
  float_truth :: "'f \<Rightarrow> bool"
  chat_completions_create :: "'f chat_call \<Rightarrow> pyexn + 'o"
  embeddings_create :: "'f json \<Rightarrow> 'f json \<Rightarrow> pyexn + 'o"
  jsonable_encoder :: "'o \<Rightarrow> pyexn + 'f json"
  render :: "'f json \<Rightarrow> pyexn option"
  iterate :: "'o \<Rightarrow> 'c list \<times> pyexn option"
  model_dump_json :: "'c \<Rightarrow> string"

text \<open>
  What a handler does besides returning: the lines it prints and the calls it makes
  upstream, each in order. A line is the list of the arguments of \<open>print\<close>; printing
  itself always succeeds.
\<close>

datatype printable = PStr string | PBytes string | PExnDict pyexn

record 'f effects =
  printed :: "printable list list"
  upstream :: "'f upstream_call list"

definition no_effects :: "'f effects" where
  "no_effects = \<lparr>printed = [], upstream = []\<rparr>"

definition prints :: "printable list list \<Rightarrow> 'f effects" where
  "prints ls = \<lparr>printed = ls, upstream = []\<rparr>"

definition calls :: "'f upstream_call \<Rightarrow> 'f effects" where
  "calls c = \<lparr>printed = [], upstream = [c]\<rparr>"

definition seq :: "'f effects \<Rightarrow> 'f effects \<Rightarrow> 'f effects" where
  "seq a b = \<lparr>printed = printed a @ printed b, upstream = upstream a @ upstream b\<rparr>"

text \<open>
  A handler ends by returning a response or by raising: an \<open>HTTPException\<close> with a
  status code and a detail, or any other exception, which leaves the handler as it is.
  A streaming response carries the frames its generator yields and the exception the
  generator ends with, if any, and the media type; the generator runs after the
  handler has returned, outside its \<open>try\<close> block.
\<close>

datatype failure = HTTPException int string | Unhandled pyexn

datatype 'f response =
    Returned string
  | JSONResponse "'f json"
  | StreamingResponse "string list" "pyexn option" string

type_synonym 'f outcome = "(failure + 'f response) \<times> 'f effects"

subsection \<open>Module level\<close>

definition environ_get :: "(string \<Rightarrow> string option) \<Rightarrow> string \<Rightarrow> string \<Rightarrow> string" where
  "environ_get environ k dflt = (case environ k of None \<Rightarrow> dflt | Some v \<Rightarrow> v)"

definition debug :: "(string \<Rightarrow> string option) \<Rightarrow> bool" where
  "debug environ = (environ_get environ ''GPTSCRIPT_DEBUG'' ''false'' = ''true'')"

definition uri :: "(string \<Rightarrow> string option) \<Rightarrow> string" where
  "uri environ = ''http://127.0.0.1:'' @ environ_get environ ''PORT'' ''8000''"

definition log :: "bool \<Rightarrow> printable list \<Rightarrow> 'f effects" where
  "log dbg args = (if dbg then prints [args] else no_effects)"

definition system :: string where
  "system =
     [CHR 0x0A] @ ''You are task oriented system.'' @
     [CHR 0x0A] @ ''You receive input from a user, process the input from the given instructions, and then output the result.'' @
     [CHR 0x0A] @ ''Your objective is to provide consistent and correct results.'' @
     [CHR 0x0A] @ ''You do not need to explain the steps taken, only provide the result to the given instructions.'' @
     [CHR 0x0A] @ ''You are referred to as a tool.'' @
     [CHR 0x0A] @ ''You don'' @ [CHR 0x27] @ ''t move to the next step until you have a result.'' @
     [CHR 0x0A]"

definition system_message :: "'f json" where
  "system_message = JObj [(''content'', JStr system), (''role'', JStr ''system'')]"

subsection \<open>Handlers\<close>

definition get_root :: "(string \<Rightarrow> string option) \<Rightarrow> 'f outcome" where
  "get_root environ = (Inr (Returned (uri environ)), no_effects)"

text \<open>\<open>list_models\<close> answers with a constant, which \<open>json.dumps\<close> renders.\<close>

definition list_models :: "'f outcome" where
  "list_models =
     (Inr (JSONResponse
        (JObj [(''data'', JArr [JObj [(''id'', JStr ''gpt-4''), (''name'', JStr ''Your model'')]])])),
      no_effects)"

text \<open>
  The \<open>except Exception as e\<close> block, the same text in both endpoints: the inner
  \<open>try\<close> prints \<open>e.__dict__\<close>, reads \<open>e.status_code\<close> and then \<open>e.message\<close>; when
  either read raises, the bare \<open>except\<close> takes 500 and \<open>str(e)\<close>.
\<close>

definition error_code_message :: "pyexn \<Rightarrow> int \<times> string" where
  "error_code_message e =
     (case status_code e of
        None \<Rightarrow> (500, exn_text e)
      | Some c \<Rightarrow>
          (case message e of
             None \<Rightarrow> (500, exn_text e)
           | Some m \<Rightarrow> (c, m)))"

definition reraise :: "bool \<Rightarrow> pyexn \<Rightarrow> 'f outcome" where
  "reraise dbg e =
     (let (error_code, error_message) = error_code_message e
      in (Inl (HTTPException error_code (''Error occurred: '' @ error_message)),
          log dbg [PStr ''Error occurred: '', PExnDict e]))"

text \<open>\<open>convert_stream\<close>: one frame for each chunk, the chunk printed first.\<close>

fun convert_chunks :: "bool \<Rightarrow> ('c \<Rightarrow> string) \<Rightarrow> 'c list \<Rightarrow> string list \<times> 'f effects" where
  "convert_chunks dbg dump [] = ([], no_effects)"
| "convert_chunks dbg dump (chunk # rest) =
     (let (frames, fx) = convert_chunks dbg dump rest
      in ((''data: '' @ dump chunk @ [CHR 0x0A, CHR 0x0A]) # frames,
          seq (log dbg [PStr ''CHUNK: '', PStr (dump chunk)]) fx))"

definition convert_stream ::
  "bool \<Rightarrow> ('f, 'o, 'c) outside \<Rightarrow> 'o \<Rightarrow> (string list \<times> pyexn option) \<times> 'f effects" where
  "convert_stream dbg out res =
     (let (chunks, err) = iterate out res;
          (frames, fx) = convert_chunks dbg (model_dump_json out) chunks
      in ((frames, err), fx))"

text \<open>
  Lines 71 to 73: a temperature that is given goes through \<open>float\<close>, which may raise;
  \<open>NOT_GIVEN\<close> stays as it is.
\<close>

definition float_if_given :: "('f, 'o, 'c) outside \<Rightarrow> 'f json option \<Rightarrow> pyexn + 'f option" where
  "float_if_given out temperature =
     (case temperature of
        None \<Rightarrow> Inr None
      | Some t \<Rightarrow> (case py_float out t of Inl e \<Rightarrow> Inl e | Inr x \<Rightarrow> Inr (Some x)))"

text \<open>
  \<open>JSONResponse(content=jsonable_encoder(res))\<close>, lines 89 and 114: the encoder runs
  first, then the constructor renders the content; either may raise.
\<close>

definition json_response :: "('f, 'o, 'c) outside \<Rightarrow> 'o \<Rightarrow> pyexn + 'f response" where
  "json_response out res =
     (case jsonable_encoder out res of
        Inl e \<Rightarrow> Inl e
      | Inr content \<Rightarrow>
          (case render out content of
             Some e \<Rightarrow> Inl e
           | None \<Rightarrow> Inr (JSONResponse content)))"

definition chat_completions :: "bool \<Rightarrow> ('f, 'o, 'c) outside \<Rightarrow> string \<Rightarrow> 'f outcome" where
  "chat_completions dbg out body =
     (case json_loads out body of
        Inl e \<Rightarrow> (Inl (Unhandled e), no_effects)
      | Inr data \<Rightarrow>
     (case data of
        JObj d \<Rightarrow>
          (let tools = map_of d ''tools'';
               tool_choice = (if tools \<noteq> None then Some ''auto'' else None)
           in
           (case float_if_given out (map_of d ''temperature'') of
              Inl e \<Rightarrow> (Inl (Unhandled e), no_effects)
            | Inr temperature \<Rightarrow>
           (let stream = (case map_of d ''stream'' of None \<Rightarrow> JBool False | Some s \<Rightarrow> s)
            in
            (case dict_item d ''messages'' of
               Inl e \<Rightarrow> (Inl (Unhandled e), no_effects)
             | Inr (JArr ms) \<Rightarrow>
                 (let messages = system_message # ms
                  in
                  (case dict_item d ''model'' of
                     Inl e \<Rightarrow> reraise dbg e
                   | Inr m \<Rightarrow>
                       (let call = \<lparr>kw_model = m, kw_messages = messages, kw_tools = tools,
                                     kw_tool_choice = tool_choice,
                                     kw_temperature = temperature, kw_stream = stream\<rparr>
                        in
                        (case chat_completions_create out call of
                           Inl e \<Rightarrow>
                             (let (r, fx) = reraise dbg e
                              in (r, seq (calls (ChatCompletionsCreate call)) fx))
                         | Inr res \<Rightarrow>
                             if \<not> py_truth (float_truth out) stream then
                               (case json_response out res of
                                  Inl e \<Rightarrow>
                                    (let (r, fx) = reraise dbg e
                                     in (r, seq (calls (ChatCompletionsCreate call)) fx))
                                | Inr resp \<Rightarrow>
                                    (Inr resp, calls (ChatCompletionsCreate call)))
                             else
                               (let ((frames, err), fx) = convert_stream dbg out res
                                in (Inr (StreamingResponse frames err ''application/x-ndjson''),
                                    seq (calls (ChatCompletionsCreate call)) fx))))))
             | Inr other \<Rightarrow>
                 (Inl (Unhandled (AttributeError (type_name other) ''insert'')), no_effects)))))
      | other \<Rightarrow> (Inl (Unhandled (AttributeError (type_name other) ''get'')), no_effects)))"

definition embeddings :: "bool \<Rightarrow> ('f, 'o, 'c) outside \<Rightarrow> string \<Rightarrow> 'f outcome" where
  "embeddings dbg out body =
     (case json_loads out body of
        Inl e \<Rightarrow> (Inl (Unhandled e), no_effects)
      | Inr data \<Rightarrow>
          (case py_getitem data ''model'' of
             Inl e \<Rightarrow> reraise dbg e
           | Inr m \<Rightarrow>
               (case py_getitem data ''input'' of
                  Inl e \<Rightarrow> reraise dbg e
                | Inr inp \<Rightarrow>
                    (case embeddings_create out m inp of
                       Inl e \<Rightarrow>
                         (let (r, fx) = reraise dbg e
                          in (r, seq (calls (EmbeddingsCreate m inp)) fx))
                     | Inr res \<Rightarrow>
                         (case json_response out res of
                            Inl e \<Rightarrow>
                              (let (r, fx) = reraise dbg e
                               in (r, seq (calls (EmbeddingsCreate m inp)) fx))
                          | Inr resp \<Rightarrow>
                              (Inr resp, calls (EmbeddingsCreate m inp)))))))"

text \<open>
  The \<open>log_body\<close> middleware runs around every handler: it prints the request body and
  returns what the handler returns. \<open>app\<close> is the application on its four routes.
\<close>

datatype route = Root | Models | ChatCompletions | Embeddings

definition log_body :: "bool \<Rightarrow> (string \<Rightarrow> 'f outcome) \<Rightarrow> string \<Rightarrow> 'f outcome" where
  "log_body dbg call_next body =
     (let (r, fx) = call_next body
      in (r, seq (log dbg [PStr ''REQUEST BODY: '', PBytes body]) fx))"

definition app ::
  "(string \<Rightarrow> string option) \<Rightarrow> ('f, 'o, 'c) outside \<Rightarrow> route \<Rightarrow> string \<Rightarrow> 'f outcome" where
  "app environ out r body =
     log_body (debug environ)
       (case r of
          Root \<Rightarrow> (\<lambda>_. get_root environ)
        | Models \<Rightarrow> (\<lambda>_. list_models)
        | ChatCompletions \<Rightarrow> chat_completions (debug environ) out
        | Embeddings \<Rightarrow> embeddings (debug environ) out)
       body"

section \<open>A stand-in for the outside, for concrete runs\<close>

text \<open>
  Floats are integers here, an upstream object is the pair of the JSON it encodes to
  and the chunks it yields, a chunk is its own JSON text. The request body always
  parses to \<open>parsed\<close>, and both upstream calls answer \<open>reply\<close>. Encoding and
  rendering succeed; \<open>not_json_compliant\<close> is the error \<open>json.dumps\<close> raises on a
  float that is not finite, for a stand-in whose rendering fails.
\<close>

definition fake_outside ::
  "(pyexn + int json) \<Rightarrow> (pyexn + (int json \<times> string list)) \<Rightarrow>
   (int, int json \<times> string list, string) outside" where
  "fake_outside parsed reply =
     \<lparr>json_loads = (\<lambda>_. parsed),
      py_float = (\<lambda>v. case v of
                         JInt i \<Rightarrow> Inr i
                       | JFloat x \<Rightarrow> Inr x
                       | _ \<Rightarrow> Inl (TypeError ''float() argument must be a string or a real number'')),
      float_truth = (\<lambda>x. x \<noteq> 0),
      chat_completions_create = (\<lambda>_. reply),
      embeddings_create = (\<lambda>_ _. reply),
      jsonable_encoder = (\<lambda>res. Inr (fst res)),
      render = (\<lambda>_. None),
      iterate = (\<lambda>res. (snd res, None)),
      model_dump_json = (\<lambda>chunk. chunk)\<rparr>"


definition rate_limited :: pyexn where
  "rate_limited =
     \<lparr>exn_class = ''RateLimitError'', exn_text = ''Error code: 429'',
      status_code = Some 429, message = Some ''rate limited''\<rparr>"

text \<open>A request, and two objects the upstream may return.\<close>

definition hello_request :: "(string \<times> int json) list" where
  "hello_request =
     [(''model'', JStr ''gpt-4''),
      (''messages'', JArr [JObj [(''role'', JStr ''user''), (''content'', JStr ''hello'')]])]"

definition completion_object :: "int json \<times> string list" where
  "completion_object =
     (JObj [(''id'', JStr ''chatcmpl-1''), (''object'', JStr ''chat.completion'')], [])"

definition chunk_stream :: "int json \<times> string list" where
  "chunk_stream = (JNull, [''{chunk-1}'', ''{chunk-2}''])"

definition hello_call :: "int chat_call" where
  \<comment> \<open>the call that \<open>hello_request\<close> leads to\<close>
  "hello_call =
     \<lparr>kw_model = JStr ''gpt-4'',
      kw_messages =
        [system_message, JObj [(''role'', JStr ''user''), (''content'', JStr ''hello'')]],
      kw_tools = None, kw_tool_choice = None, kw_temperature = None,
      kw_stream = JBool False\<rparr>"

definition embedding_request :: "(string \<times> int json) list" where
  "embedding_request =
     [(''model'', JStr ''text-embedding-3-small''), (''input'', JStr ''hello'')]"

section \<open>Properties of get_video_url\<close>

lemma py_split_nonempty: "py_split c s \<noteq> []"
  by (induction s) (auto split: list.splits)

lemma list_first_py_split: "list_first (py_split c s) = Inr (takeWhile (\<lambda>x. x \<noteq> c) s)"
proof (induction s)
  case Nil
  show ?case by (simp add: list_first_def)
next
  case (Cons x xs)
  show ?case
  proof (cases "x = c")
    case True
    then show ?thesis by (simp add: list_first_def)
  next
    case False
    obtain w ws where ws: "py_split c xs = w # ws"
      using py_split_nonempty [of c xs] by (cases "py_split c xs") auto
    with Cons have "w = takeWhile (\<lambda>x. x \<noteq> c) xs" by (simp add: list_first_def)
    with False ws show ?thesis by (simp add: list_first_def)
  qed
qed

lemma dropWhile_all_eq: "set s \<subseteq> {c} \<Longrightarrow> dropWhile (\<lambda>x. x = c) s = []"
  by (induction s) simp_all

lemma py_strip_all: "set s \<subseteq> {c} \<Longrightarrow> py_strip c s = []"
  by (simp add: py_strip_def dropWhile_all_eq)

lemma get_video_url_youtube:
  assumes "environ ''VIDEO_URL'' = Some url" and "up url = Inr parsed"
    and "netloc parsed = ''www.youtube.com''"
  shows "get_video_url up qs environ =
           (case map_of (qs (query parsed)) ''v'' of
              None \<Rightarrow> Inl (KeyError ''v'')
            | Some [] \<Rightarrow> Inl IndexError
            | Some (v # _) \<Rightarrow> Inr v)"
  using assms
  by (simp add: get_video_url_def dict_item_def list_first_def split: option.splits list.splits)

lemma get_video_url_short:
  assumes "environ ''VIDEO_URL'' = Some url" and "up url = Inr parsed"
    and "netloc parsed = ''youtu.be''"
  shows "get_video_url up qs environ =
           Inr (takeWhile (\<lambda>c. c \<noteq> CHR ''/'') (py_strip CHR ''/'' (path parsed)))"
  using assms by (simp add: get_video_url_def list_first_py_split)

lemma get_video_url_other:
  assumes "environ ''VIDEO_URL'' = Some url" and "up url = Inr parsed"
    and "netloc parsed \<noteq> ''www.youtube.com''" and "netloc parsed \<noteq> ''youtu.be''"
  shows "get_video_url up qs environ = Inl (ValueError (''Invalid YouTube URL: '' @ url))"
  using assms by (simp add: get_video_url_def)

text \<open>
  C6. For a set URL, \<open>get_video_url\<close> goes by the parsed host. On \<open>www.youtube.com\<close> it
  returns the first value of the query parameter \<open>v\<close>, and raises KeyError when \<open>v\<close>
  is not there. On \<open>youtu.be\<close> it returns the first segment of the path once the
  slashes at both ends are stripped: the text before the first slash that remains.
  This holds whatever \<open>urlparse\<close> and \<open>parse_qs\<close> compute. With the library's own
  functions, \<open>https://www.youtube.com/watch?v=abc123\<close> and \<open>https://youtu.be/abc123\<close>
  both give \<open>abc123\<close>.
\<close>

theorem get_video_url_dispatch:
  "(environ ''VIDEO_URL'' = Some url \<and> up url = Inr parsed \<and>
    netloc parsed = ''www.youtube.com'' \<longrightarrow>
      get_video_url up qs environ =
        (case map_of (qs (query parsed)) ''v'' of
           None \<Rightarrow> Inl (KeyError ''v'')
         | Some [] \<Rightarrow> Inl IndexError
         | Some (v # _) \<Rightarrow> Inr v)) \<and>
   (environ ''VIDEO_URL'' = Some url \<and> up url = Inr parsed \<and>
    netloc parsed = ''youtu.be'' \<longrightarrow>
      get_video_url up qs environ =
        Inr (takeWhile (\<lambda>c. c \<noteq> CHR ''/'') (py_strip CHR ''/'' (path parsed)))) \<and>
   get_video_url urlparse parse_qs
     [''VIDEO_URL'' \<mapsto> ''https://www.youtube.com/watch?v=abc123''] = Inr ''abc123'' \<and>
   get_video_url urlparse parse_qs
     [''VIDEO_URL'' \<mapsto> ''https://youtu.be/abc123''] = Inr ''abc123''"
proof -
  have a: "get_video_url urlparse parse_qs
     [''VIDEO_URL'' \<mapsto> ''https://www.youtube.com/watch?v=abc123''] = Inr ''abc123''"
    by code_simp
  have b: "get_video_url urlparse parse_qs
     [''VIDEO_URL'' \<mapsto> ''https://youtu.be/abc123''] = Inr ''abc123''"
    by code_simp
  show ?thesis
    using a b get_video_url_youtube [of environ url up parsed qs]
      get_video_url_short [of environ url up parsed qs]
    by blast
qed

theorem get_video_url_dispatch_witness:
  "get_video_url urlparse parse_qs
     [''VIDEO_URL'' \<mapsto> ''https://www.youtube.com/watch?t=5&v=xyz789''] = Inr ''xyz789'' \<and>
   get_video_url urlparse parse_qs
     [''VIDEO_URL'' \<mapsto> ''https://www.youtube.com/watch?t=5''] = Inl (KeyError ''v'') \<and>
   get_video_url urlparse parse_qs
     [''VIDEO_URL'' \<mapsto> ''https://youtu.be/xyz789/more/''] = Inr ''xyz789''"
proof -
  let ?u1 = "''https://www.youtube.com/watch?t=5&v=xyz789''"
  let ?p1 = "\<lparr>scheme = ''https'', netloc = ''www.youtube.com'', path = ''/watch'',
              params = [], query = ''t=5&v=xyz789'', fragment = []\<rparr>"
  let ?u2 = "''https://www.youtube.com/watch?t=5''"
  let ?p2 = "\<lparr>scheme = ''https'', netloc = ''www.youtube.com'', path = ''/watch'',
              params = [], query = ''t=5'', fragment = []\<rparr>"
  let ?u3 = "''https://youtu.be/xyz789/more/''"
  let ?p3 = "\<lparr>scheme = ''https'', netloc = ''youtu.be'', path = ''/xyz789/more/'',
              params = [], query = [], fragment = []\<rparr>"
  have p1: "urlparse ?u1 = Inr ?p1" by code_simp
  have q1: "parse_qs ''t=5&v=xyz789'' = [(''t'', [''5'']), (''v'', [''xyz789''])]"
    by code_simp
  have p2: "urlparse ?u2 = Inr ?p2" by code_simp
  have q2: "parse_qs ''t=5'' = [(''t'', [''5''])]" by code_simp
  have p3: "urlparse ?u3 = Inr ?p3" by code_simp
  have s3: "py_strip CHR ''/'' ''/xyz789/more/'' = ''xyz789/more''" by code_simp
  have r1: "get_video_url urlparse parse_qs [''VIDEO_URL'' \<mapsto> ?u1] = Inr ''xyz789''"
    using get_video_url_dispatch
      [where environ = "[''VIDEO_URL'' \<mapsto> ?u1]" and url = ?u1 and up = urlparse
         and parsed = ?p1 and qs = parse_qs]
      p1 q1 by simp
  have r2: "get_video_url urlparse parse_qs [''VIDEO_URL'' \<mapsto> ?u2] = Inl (KeyError ''v'')"
    using get_video_url_dispatch
      [where environ = "[''VIDEO_URL'' \<mapsto> ?u2]" and url = ?u2 and up = urlparse
         and parsed = ?p2 and qs = parse_qs]
      p2 q2 by simp
  have r3: "get_video_url urlparse parse_qs [''VIDEO_URL'' \<mapsto> ?u3] = Inr ''xyz789''"
    using get_video_url_dispatch
      [where environ = "[''VIDEO_URL'' \<mapsto> ?u3]" and url = ?u3 and up = urlparse
         and parsed = ?p3 and qs = parse_qs]
      p3 s3 by simp
  from r1 r2 r3 show ?thesis by blast
qed

text \<open>
  C7. With \<open>VIDEO_URL\<close> unset, \<open>get_video_url\<close> raises the ValueError
  \<open>Error: video_url must be set\<close>. With a URL whose parsed host is neither
  \<open>www.youtube.com\<close> nor \<open>youtu.be\<close>, it raises a ValueError whose text is
  \<open>Invalid YouTube URL: \<close> followed by the URL it was given. The two errors differ,
  and in both cases the result is the error, not an identifier.
\<close>

theorem get_video_url_value_errors:
  "(environ ''VIDEO_URL'' = None \<longrightarrow>
      get_video_url up qs environ = Inl (ValueError ''Error: video_url must be set'')) \<and>
   (environ ''VIDEO_URL'' = Some url \<and> up url = Inr parsed \<and>
    netloc parsed \<noteq> ''www.youtube.com'' \<and> netloc parsed \<noteq> ''youtu.be'' \<longrightarrow>
      get_video_url up qs environ = Inl (ValueError (''Invalid YouTube URL: '' @ url))) \<and>
   ValueError ''Error: video_url must be set'' \<noteq> ValueError (''Invalid YouTube URL: '' @ url) \<and>
   exn_class (ValueError msg) = ''ValueError'' \<and> exn_text (ValueError msg) = msg \<and>
   get_video_url urlparse parse_qs [''VIDEO_URL'' \<mapsto> ''https://example.com/x''] =
     Inl (ValueError ''Invalid YouTube URL: https://example.com/x'')"
proof -
  have a: "environ ''VIDEO_URL'' = None \<longrightarrow>
      get_video_url up qs environ = Inl (ValueError ''Error: video_url must be set'')"
    by (simp add: get_video_url_def)
  have b: "ValueError ''Error: video_url must be set'' \<noteq>
           ValueError (''Invalid YouTube URL: '' @ url)"
    by (simp add: ValueError_def plain_exn_def)
  have c: "exn_class (ValueError msg) = ''ValueError'' \<and> exn_text (ValueError msg) = msg"
    by (simp add: ValueError_def plain_exn_def)
  have d: "get_video_url urlparse parse_qs [''VIDEO_URL'' \<mapsto> ''https://example.com/x''] =
     Inl (ValueError ''Invalid YouTube URL: https://example.com/x'')"
    by code_simp
  show ?thesis
    using a b c d get_video_url_other [of environ url up parsed qs] by blast
qed

theorem get_video_url_value_errors_witness:
  "get_video_url urlparse parse_qs Map.empty =
     Inl (ValueError ''Error: video_url must be set'') \<and>
   get_video_url urlparse parse_qs [''VIDEO_URL'' \<mapsto> ''https://vimeo.com/123''] =
     Inl (ValueError ''Invalid YouTube URL: https://vimeo.com/123'')"
proof -
  let ?u = "''https://vimeo.com/123''"
  let ?p = "\<lparr>scheme = ''https'', netloc = ''vimeo.com'', path = ''/123'',
             params = [], query = [], fragment = []\<rparr>"
  have p: "urlparse ?u = Inr ?p" by code_simp
  have r1: "get_video_url urlparse parse_qs Map.empty =
              Inl (ValueError ''Error: video_url must be set'')"
    using get_video_url_value_errors
      [where environ = Map.empty and up = urlparse and qs = parse_qs]
    by simp
  have r2: "get_video_url urlparse parse_qs [''VIDEO_URL'' \<mapsto> ?u] =
              Inl (ValueError (''Invalid YouTube URL: '' @ ?u))"
    using get_video_url_value_errors
      [where environ = "[''VIDEO_URL'' \<mapsto> ?u]" and url = ?u and up = urlparse
         and parsed = ?p and qs = parse_qs]
      p by simp
  from r1 r2 show ?thesis by simp
qed

text \<open>
  C10. For a set URL whose parsed host is \<open>youtu.be\<close> and whose path is empty or made
  of slashes only, \<open>get_video_url\<close> returns the empty string and raises nothing;
  \<open>https://youtu.be/\<close> is such a URL.
\<close>

theorem get_video_url_short_link_empty_path:
  "(environ ''VIDEO_URL'' = Some url \<and> up url = Inr parsed \<and>
    netloc parsed = ''youtu.be'' \<and> set (path parsed) \<subseteq> {CHR ''/''} \<longrightarrow>
      get_video_url up qs environ = Inr []) \<and>
   get_video_url urlparse parse_qs [''VIDEO_URL'' \<mapsto> ''https://youtu.be/''] = Inr []"
proof -
  have a: "get_video_url urlparse parse_qs [''VIDEO_URL'' \<mapsto> ''https://youtu.be/''] = Inr []"
    by code_simp
  have b: "get_video_url up qs environ = Inr []"
    if "environ ''VIDEO_URL'' = Some url" "up url = Inr parsed"
      "netloc parsed = ''youtu.be''" "set (path parsed) \<subseteq> {CHR ''/''}"
    using that get_video_url_short [of environ url up parsed qs]
    by (simp add: py_strip_all)
  from a b show ?thesis by blast
qed

theorem get_video_url_short_link_empty_path_witness:
  "get_video_url urlparse parse_qs [''VIDEO_URL'' \<mapsto> ''https://youtu.be///''] = Inr [] \<and>
   get_video_url urlparse parse_qs [''VIDEO_URL'' \<mapsto> ''https://youtu.be''] = Inr []"
proof -
  let ?u1 = "''https://youtu.be///''"
  let ?p1 = "\<lparr>scheme = ''https'', netloc = ''youtu.be'', path = ''///'',
              params = [], query = [], fragment = []\<rparr>"
  let ?u2 = "''https://youtu.be''"
  let ?p2 = "\<lparr>scheme = ''https'', netloc = ''youtu.be'', path = [],
              params = [], query = [], fragment = []\<rparr>"
  have p1: "urlparse ?u1 = Inr ?p1" by code_simp
  have p2: "urlparse ?u2 = Inr ?p2" by code_simp
  have r1: "get_video_url urlparse parse_qs [''VIDEO_URL'' \<mapsto> ?u1] = Inr []"
    using get_video_url_short_link_empty_path
      [where environ = "[''VIDEO_URL'' \<mapsto> ?u1]" and url = ?u1 and up = urlparse
         and parsed = ?p1 and qs = parse_qs]
      p1 by simp
  have r2: "get_video_url urlparse parse_qs [''VIDEO_URL'' \<mapsto> ?u2] = Inr []"
    using get_video_url_short_link_empty_path
      [where environ = "[''VIDEO_URL'' \<mapsto> ?u2]" and url = ?u2 and up = urlparse
         and parsed = ?p2 and qs = parse_qs]
      p2 by simp
  from r1 r2 show ?thesis by simp
qed

section \<open>Properties of the handlers\<close>

lemma upstream_simps [simp]:
  "upstream (no_effects :: 'f effects) = []"
  "upstream (prints ls :: 'f effects) = []"
  "upstream (calls c) = [c]"
  "upstream (seq a b) = upstream a @ upstream b"
  "upstream (log dbg args :: 'f effects) = []"
  by (simp_all add: no_effects_def prints_def calls_def seq_def log_def)

lemma printed_simps [simp]:
  "printed (no_effects :: 'f effects) = []"
  "printed (prints ls :: 'f effects) = ls"
  "printed (calls c) = []"
  "printed (seq a b) = printed a @ printed b"
  "printed (log dbg args :: 'f effects) = (if dbg then [args] else [])"
  by (simp_all add: no_effects_def prints_def calls_def seq_def log_def)

lemma reraise_fst:
  "fst (reraise dbg e :: 'f outcome) =
     Inl (case (status_code e, message e) of
            (Some sc, Some m) \<Rightarrow> HTTPException sc (''Error occurred: '' @ m)
          | _ \<Rightarrow> HTTPException 500 (''Error occurred: '' @ exn_text e))"
  by (simp add: reraise_def error_code_message_def split: option.splits)

lemma reraise_upstream [simp]: "upstream (snd (reraise dbg e :: 'f outcome)) = []"
  by (simp add: reraise_def split: prod.splits)

lemma convert_chunks_frames:
  "fst (convert_chunks dbg dump chunks :: string list \<times> 'f effects) =
     map (\<lambda>chunk. ''data: '' @ dump chunk @ [CHR 0x0A, CHR 0x0A]) chunks"
  by (induction chunks) (auto split: prod.splits)

lemma convert_chunks_upstream [simp]:
  "upstream (snd (convert_chunks dbg dump chunks :: string list \<times> 'f effects)) = []"
  by (induction chunks) (auto split: prod.splits)

lemma chat_exit_loads:
  "json_loads out body = Inl e \<Longrightarrow> chat_completions dbg out body = (Inl (Unhandled e), no_effects)"
  by (simp add: chat_completions_def)

lemma chat_exit_not_dict:
  "json_loads out body = Inr data \<Longrightarrow> \<forall>d. data \<noteq> JObj d \<Longrightarrow>
   chat_completions dbg out body =
     (Inl (Unhandled (AttributeError (type_name data) ''get'')), no_effects)"
  by (cases data) (simp_all add: chat_completions_def)

lemma chat_exit_float:
  "json_loads out body = Inr (JObj d) \<Longrightarrow>
   float_if_given out (map_of d ''temperature'') = Inl e \<Longrightarrow>
   chat_completions dbg out body = (Inl (Unhandled e), no_effects)"
  by (simp add: chat_completions_def)

lemma chat_exit_no_messages:
  "json_loads out body = Inr (JObj d) \<Longrightarrow>
   float_if_given out (map_of d ''temperature'') = Inr t \<Longrightarrow>
   map_of d ''messages'' = None \<Longrightarrow>
   chat_completions dbg out body = (Inl (Unhandled (KeyError ''messages'')), no_effects)"
  by (simp add: chat_completions_def dict_item_def)

lemma chat_exit_messages_not_list:
  "json_loads out body = Inr (JObj d) \<Longrightarrow>
   float_if_given out (map_of d ''temperature'') = Inr t \<Longrightarrow>
   map_of d ''messages'' = Some v \<Longrightarrow> \<forall>ms. v \<noteq> JArr ms \<Longrightarrow>
   chat_completions dbg out body =
     (Inl (Unhandled (AttributeError (type_name v) ''insert'')), no_effects)"
  by (cases v) (simp_all add: chat_completions_def dict_item_def)

lemma chat_exit_no_model:
  "json_loads out body = Inr (JObj d) \<Longrightarrow>
   float_if_given out (map_of d ''temperature'') = Inr t \<Longrightarrow>
   map_of d ''messages'' = Some (JArr ms) \<Longrightarrow> map_of d ''model'' = None \<Longrightarrow>
   chat_completions dbg out body = reraise dbg (KeyError ''model'')"
  by (simp add: chat_completions_def dict_item_def)

lemma chat_try:
  assumes "json_loads out body = Inr (JObj d)"
    and "float_if_given out (map_of d ''temperature'') = Inr t"
    and "map_of d ''messages'' = Some (JArr ms)" and "map_of d ''model'' = Some m"
    and "call = \<lparr>kw_model = m, kw_messages = system_message # ms,
                  kw_tools = map_of d ''tools'',
                  kw_tool_choice = (if map_of d ''tools'' \<noteq> None then Some ''auto'' else None),
                  kw_temperature = t,
                  kw_stream = (case map_of d ''stream'' of None \<Rightarrow> JBool False | Some s \<Rightarrow> s)\<rparr>"
  shows "upstream (snd (chat_completions dbg out body)) = [ChatCompletionsCreate call]"
    and "fst (chat_completions dbg out body) =
           (case chat_completions_create out call of
              Inl e \<Rightarrow> fst (reraise dbg e :: 'a outcome)
            | Inr res \<Rightarrow>
                if \<not> py_truth (float_truth out) (kw_stream call)
                then (case json_response out res of
                        Inl e \<Rightarrow> fst (reraise dbg e :: 'a outcome)
                      | Inr resp \<Rightarrow> Inr resp)
                else Inr (StreamingResponse
                       (map (\<lambda>chunk. ''data: '' @ model_dump_json out chunk @ [CHR 0x0A, CHR 0x0A])
                          (fst (iterate out res)))
                       (snd (iterate out res)) ''application/x-ndjson''))"
  using assms
  by (simp_all add: chat_completions_def dict_item_def Let_def convert_stream_def split_beta
      convert_chunks_frames split: sum.splits)


lemma chat_cases:
  obtains (loads_raises) e where "json_loads out body = Inl e"
  | (not_dict) data where "json_loads out body = Inr data" and "\<forall>d. data \<noteq> JObj d"
  | (float_raises) d e where "json_loads out body = Inr (JObj d)"
      and "float_if_given out (map_of d ''temperature'') = Inl e"
  | (no_messages) d t where "json_loads out body = Inr (JObj d)"
      and "float_if_given out (map_of d ''temperature'') = Inr t"
      and "map_of d ''messages'' = None"
  | (messages_not_list) d t v where "json_loads out body = Inr (JObj d)"
      and "float_if_given out (map_of d ''temperature'') = Inr t"
      and "map_of d ''messages'' = Some v" and "\<forall>ms. v \<noteq> JArr ms"
  | (no_model) d t ms where "json_loads out body = Inr (JObj d)"
      and "float_if_given out (map_of d ''temperature'') = Inr t"
      and "map_of d ''messages'' = Some (JArr ms)" and "map_of d ''model'' = None"
  | (try_block) d t ms m where "json_loads out body = Inr (JObj d)"
      and "float_if_given out (map_of d ''temperature'') = Inr t"
      and "map_of d ''messages'' = Some (JArr ms)" and "map_of d ''model'' = Some m"
proof (cases "json_loads out body")
  case (Inl e)
  then show ?thesis by (rule loads_raises)
next
  case (Inr data)
  show ?thesis
  proof (cases "\<exists>d. data = JObj d")
    case False
    with Inr show ?thesis by (intro not_dict [of data]) auto
  next
    case True
    then obtain d where d: "json_loads out body = Inr (JObj d)" using Inr by auto
    show ?thesis
    proof (cases "float_if_given out (map_of d ''temperature'')")
      case (Inl e)
      with d show ?thesis by (rule float_raises)
    next
      case t: (Inr t)
      show ?thesis
      proof (cases "map_of d ''messages''")
        case None
        with d t show ?thesis by (rule no_messages)
      next
        case (Some v)
        show ?thesis
        proof (cases "\<exists>ms. v = JArr ms")
          case False
          with d t Some show ?thesis by (intro messages_not_list [of d t v]) auto
        next
          case True
          then obtain ms where ms: "map_of d ''messages'' = Some (JArr ms)"
            using Some by auto
          show ?thesis
          proof (cases "map_of d ''model''")
            case None
            with d t ms show ?thesis by (rule no_model)
          next
            case (Some m)
            with d t ms show ?thesis by (rule try_block)
          qed
        qed
      qed
    qed
  qed
qed

lemma chat_call_made:
  assumes c: "ChatCompletionsCreate c \<in> set (upstream (snd (chat_completions dbg out body)))"
  shows "\<exists>d t ms m. json_loads out body = Inr (JObj d) \<and>
           float_if_given out (map_of d ''temperature'') = Inr t \<and>
           map_of d ''messages'' = Some (JArr ms) \<and> map_of d ''model'' = Some m \<and>
           c = \<lparr>kw_model = m, kw_messages = system_message # ms,
                 kw_tools = map_of d ''tools'',
                 kw_tool_choice = (if map_of d ''tools'' \<noteq> None then Some ''auto'' else None),
                 kw_temperature = t,
                 kw_stream = (case map_of d ''stream'' of None \<Rightarrow> JBool False | Some s \<Rightarrow> s)\<rparr>"
proof (cases rule: chat_cases [of out body])
  case (loads_raises e)
  with c show ?thesis by (simp add: chat_exit_loads)
next
  case (not_dict data)
  with c show ?thesis by (simp add: chat_exit_not_dict)
next
  case (float_raises d e)
  with c show ?thesis by (simp add: chat_exit_float)
next
  case (no_messages d t)
  with c show ?thesis by (simp add: chat_exit_no_messages)
next
  case (messages_not_list d t v)
  with c show ?thesis by (simp add: chat_exit_messages_not_list)
next
  case (no_model d t ms)
  with c show ?thesis by (simp add: chat_exit_no_model)
next
  case (try_block d t ms m)
  from c chat_try(1) [OF try_block refl, of dbg] try_block show ?thesis by auto
qed

lemma emb_exit_loads:
  "json_loads out body = Inl e \<Longrightarrow> embeddings dbg out body = (Inl (Unhandled e), no_effects)"
  by (simp add: embeddings_def)

lemma emb_exit_no_model:
  "json_loads out body = Inr data \<Longrightarrow> py_getitem data ''model'' = Inl e \<Longrightarrow>
   embeddings dbg out body = reraise dbg e"
  by (simp add: embeddings_def)

lemma emb_exit_no_input:
  "json_loads out body = Inr data \<Longrightarrow> py_getitem data ''model'' = Inr m \<Longrightarrow>
   py_getitem data ''input'' = Inl e \<Longrightarrow> embeddings dbg out body = reraise dbg e"
  by (simp add: embeddings_def)

lemma emb_try:
  assumes "json_loads out body = Inr data" and "py_getitem data ''model'' = Inr m"
    and "py_getitem data ''input'' = Inr i"
  shows "upstream (snd (embeddings dbg out body)) = [EmbeddingsCreate m i]"
    and "fst (embeddings dbg out body) =
           (case embeddings_create out m i of
              Inl e \<Rightarrow> fst (reraise dbg e :: 'a outcome)
            | Inr res \<Rightarrow>
                (case json_response out res of
                   Inl e \<Rightarrow> fst (reraise dbg e :: 'a outcome)
                 | Inr resp \<Rightarrow> Inr resp))"
  using assms by (simp_all add: embeddings_def split_beta split: sum.splits)

lemma emb_call_made:
  assumes c: "EmbeddingsCreate m i \<in> set (upstream (snd (embeddings dbg out body)))"
  shows "\<exists>data. json_loads out body = Inr data \<and> py_getitem data ''model'' = Inr m \<and>
           py_getitem data ''input'' = Inr i"
proof (cases "json_loads out body")
  case (Inl e)
  with c show ?thesis by (simp add: emb_exit_loads)
next
  case (Inr data)
  show ?thesis
  proof (cases "py_getitem data ''model''")
    case (Inl e)
    with c Inr show ?thesis by (simp add: emb_exit_no_model)
  next
    case m: (Inr m')
    show ?thesis
    proof (cases "py_getitem data ''input''")
      case (Inl e)
      with c Inr m show ?thesis by (simp add: emb_exit_no_input)
    next
      case i: (Inr i')
      from c emb_try(1) [OF Inr m i, of dbg] Inr m i show ?thesis by auto
    qed
  qed
qed


lemma chat_debug_independent:
  "fst (chat_completions a out body) = fst (chat_completions b out body) \<and>
   upstream (snd (chat_completions a out body)) = upstream (snd (chat_completions b out body))"
proof (cases rule: chat_cases [of out body])
  case (loads_raises e)
  then show ?thesis by (simp add: chat_exit_loads)
next
  case (not_dict data)
  then show ?thesis by (simp add: chat_exit_not_dict)
next
  case (float_raises d e)
  then show ?thesis by (simp add: chat_exit_float)
next
  case (no_messages d t)
  then show ?thesis by (simp add: chat_exit_no_messages)
next
  case (messages_not_list d t v)
  then show ?thesis by (simp add: chat_exit_messages_not_list)
next
  case (no_model d t ms)
  then show ?thesis by (simp add: chat_exit_no_model reraise_fst)
next
  case (try_block d t ms m)
  from chat_try [OF try_block refl, of a] chat_try [OF try_block refl, of b]
  show ?thesis by (simp add: reraise_fst split: sum.splits)
qed

lemma emb_debug_independent:
  "fst (embeddings a out body) = fst (embeddings b out body) \<and>
   upstream (snd (embeddings a out body)) = upstream (snd (embeddings b out body))"
  by (simp add: embeddings_def split_beta reraise_fst split: sum.splits)

lemma app_debug_independent:
  assumes "uri e1 = uri e2"
  shows "fst (app e1 out r body) = fst (app e2 out r body) \<and>
         upstream (snd (app e1 out r body)) = upstream (snd (app e2 out r body))"
  using assms chat_debug_independent [of "debug e1" out body "debug e2"]
    emb_debug_independent [of "debug e1" out body "debug e2"]
  by (cases r) (simp_all add: app_def log_body_def split_beta get_root_def list_models_def)

lemma printed_reraise [simp]: "printed (snd (reraise False e :: 'f outcome)) = []"
  by (simp add: reraise_def split_beta)

lemma printed_convert_chunks [simp]:
  "printed (snd (convert_chunks False dump chunks :: string list \<times> 'f effects)) = []"
  by (induction chunks) (simp_all add: split_beta)

lemma chat_quiet: "printed (snd (chat_completions False out body)) = []"
  by (simp add: chat_completions_def Let_def split_beta convert_stream_def
      split: sum.splits json.splits)

lemma emb_quiet: "printed (snd (embeddings False out body)) = []"
  by (simp add: embeddings_def split_beta split: sum.splits)

lemma app_quiet: "\<not> debug environ \<Longrightarrow> printed (snd (app environ out r body)) = []"
  by (cases r)
     (simp_all add: app_def log_body_def split_beta get_root_def list_models_def
        chat_quiet emb_quiet)

text \<open>
  C1. In both endpoints, when the call the handler makes upstream raises \<open>e\<close>, the
  handler raises an \<open>HTTPException\<close>: with \<open>e.status_code\<close> and the detail
  \<open>Error occurred: \<close> followed by \<open>e.message\<close> when \<open>e\<close> has both attributes, and
  otherwise with 500 and \<open>Error occurred: \<close> followed by \<open>str(e)\<close>. An upstream error
  with status 429 and message \<open>rate limited\<close> so comes out as an \<open>HTTPException\<close> with
  status 429 whose detail contains \<open>rate limited\<close>.
\<close>

theorem upstream_failure_is_http_error:
  "(ChatCompletionsCreate c \<in> set (upstream (snd (chat_completions dbg out body))) \<and>
    chat_completions_create out c = Inl e \<longrightarrow>
      fst (chat_completions dbg out body) =
        Inl (case (status_code e, message e) of
               (Some sc, Some msg) \<Rightarrow> HTTPException sc (''Error occurred: '' @ msg)
             | _ \<Rightarrow> HTTPException 500 (''Error occurred: '' @ exn_text e))) \<and>
   (EmbeddingsCreate m i \<in> set (upstream (snd (embeddings dbg out body))) \<and>
    embeddings_create out m i = Inl e \<longrightarrow>
      fst (embeddings dbg out body) =
        Inl (case (status_code e, message e) of
               (Some sc, Some msg) \<Rightarrow> HTTPException sc (''Error occurred: '' @ msg)
             | _ \<Rightarrow> HTTPException 500 (''Error occurred: '' @ exn_text e))) \<and>
   (ChatCompletionsCreate c \<in> set (upstream (snd (chat_completions dbg out body))) \<and>
    chat_completions_create out c = Inl e \<and>
    status_code e = Some 429 \<and> message e = Some ''rate limited'' \<longrightarrow>
      (\<exists>pre post. fst (chat_completions dbg out body) =
         Inl (HTTPException 429 (pre @ ''rate limited'' @ post)))) \<and>
   (EmbeddingsCreate m i \<in> set (upstream (snd (embeddings dbg out body))) \<and>
    embeddings_create out m i = Inl e \<and>
    status_code e = Some 429 \<and> message e = Some ''rate limited'' \<longrightarrow>
      (\<exists>pre post. fst (embeddings dbg out body) =
         Inl (HTTPException 429 (pre @ ''rate limited'' @ post))))"
proof -
  let ?http = "case (status_code e, message e) of
                 (Some sc, Some msg) \<Rightarrow> HTTPException sc (''Error occurred: '' @ msg)
               | _ \<Rightarrow> HTTPException 500 (''Error occurred: '' @ exn_text e)"
  have chat: "fst (chat_completions dbg out body) = Inl ?http"
    if c: "ChatCompletionsCreate c \<in> set (upstream (snd (chat_completions dbg out body)))"
      and e: "chat_completions_create out c = Inl e"
  proof -
    from chat_call_made [OF c] obtain d t ms mo where
      w: "json_loads out body = Inr (JObj d)"
         "float_if_given out (map_of d ''temperature'') = Inr t"
         "map_of d ''messages'' = Some (JArr ms)" "map_of d ''model'' = Some mo"
      and call: "c = \<lparr>kw_model = mo, kw_messages = system_message # ms,
                      kw_tools = map_of d ''tools'',
                      kw_tool_choice = (if map_of d ''tools'' \<noteq> None then Some ''auto'' else None),
                      kw_temperature = t,
                      kw_stream = (case map_of d ''stream'' of None \<Rightarrow> JBool False | Some s \<Rightarrow> s)\<rparr>"
      by blast
    from chat_try(2) [OF w call, of dbg] e show ?thesis
      by (simp add: reraise_fst)
  qed
  have emb: "fst (embeddings dbg out body) = Inl ?http"
    if c: "EmbeddingsCreate m i \<in> set (upstream (snd (embeddings dbg out body)))"
      and e: "embeddings_create out m i = Inl e"
  proof -
    from emb_call_made [OF c] obtain data where
      w: "json_loads out body = Inr data" "py_getitem data ''model'' = Inr m"
         "py_getitem data ''input'' = Inr i"
      by blast
    from emb_try(2) [OF w, of dbg] e show ?thesis
      by (simp add: reraise_fst)
  qed
  have rl: "?http = HTTPException 429 (''Error occurred: '' @ ''rate limited'' @ [])"
    if "status_code e = Some 429" "message e = Some ''rate limited''"
    using that by simp
  show ?thesis
    using chat emb rl by metis
qed

theorem upstream_failure_is_http_error_witness:
  "fst (chat_completions True
          (fake_outside (Inr (JObj hello_request)) (Inl rate_limited)) []) =
     Inl (HTTPException 429 ''Error occurred: rate limited'') \<and>
   fst (embeddings False
          (fake_outside (Inr (JObj embedding_request))
             (Inl (plain_exn ''APIConnectionError'' ''Connection error.''))) []) =
     Inl (HTTPException 500 ''Error occurred: Connection error.'')"
proof -
  let ?o1 = "fake_outside (Inr (JObj hello_request)) (Inl rate_limited)"
  let ?e2 = "plain_exn ''APIConnectionError'' ''Connection error.''"
  let ?o2 = "fake_outside (Inr (JObj embedding_request)) (Inl ?e2)"
  have m1: "ChatCompletionsCreate hello_call \<in>
              set (upstream (snd (chat_completions True ?o1 [])))"
    by code_simp
  have e1: "chat_completions_create ?o1 hello_call = Inl rate_limited"
    by (simp add: fake_outside_def)
  have m2: "EmbeddingsCreate (JStr ''text-embedding-3-small'') (JStr ''hello'') \<in>
              set (upstream (snd (embeddings False ?o2 [])))"
    by code_simp
  have e2: "embeddings_create ?o2 (JStr ''text-embedding-3-small'') (JStr ''hello'') = Inl ?e2"
    by (simp add: fake_outside_def)
  have r1: "fst (chat_completions True ?o1 []) =
              Inl (HTTPException 429 ''Error occurred: rate limited'')"
    using upstream_failure_is_http_error
      [where c = hello_call and dbg = True and out = ?o1 and body = "[]"
         and e = rate_limited]
      m1 e1 by (simp add: rate_limited_def)
  have r2: "fst (embeddings False ?o2 []) =
              Inl (HTTPException 500 ''Error occurred: Connection error.'')"
    using upstream_failure_is_http_error
      [where m = "JStr ''text-embedding-3-small''" and i = "JStr ''hello''"
         and dbg = False and out = ?o2 and body = "[]" and e = ?e2]
      m2 e2 by (simp add: plain_exn_def)
  from r1 r2 show ?thesis by simp
qed

text \<open>
  C2. Whenever \<open>chat_completions\<close> calls upstream, streaming or not, the messages it
  forwards are the fixed system message followed by the list under \<open>messages\<close> of the
  request, as it was. And a request with a list of messages, a model and a usable
  temperature does lead to exactly one such call.
\<close>

theorem system_message_first:
  "(ChatCompletionsCreate c \<in> set (upstream (snd (chat_completions dbg out body))) \<longrightarrow>
      (\<exists>d ms. json_loads out body = Inr (JObj d) \<and>
         map_of d ''messages'' = Some (JArr ms) \<and>
         kw_messages c =
           JObj [(''content'', JStr system), (''role'', JStr ''system'')] # ms)) \<and>
   (json_loads out body = Inr (JObj d) \<and> map_of d ''messages'' = Some (JArr ms) \<and>
    map_of d ''model'' = Some m \<and>
    float_if_given out (map_of d ''temperature'') = Inr t \<longrightarrow>
      (\<exists>c. upstream (snd (chat_completions dbg out body)) = [ChatCompletionsCreate c] \<and>
         kw_messages c =
           JObj [(''content'', JStr system), (''role'', JStr ''system'')] # ms))"
proof -
  have a: "\<exists>d ms. json_loads out body = Inr (JObj d) \<and>
             map_of d ''messages'' = Some (JArr ms) \<and>
             kw_messages c =
               JObj [(''content'', JStr system), (''role'', JStr ''system'')] # ms"
    if "ChatCompletionsCreate c \<in> set (upstream (snd (chat_completions dbg out body)))"
    using chat_call_made [OF that] by (auto simp: system_message_def)
  have b: "\<exists>c. upstream (snd (chat_completions dbg out body)) = [ChatCompletionsCreate c] \<and>
             kw_messages c =
               JObj [(''content'', JStr system), (''role'', JStr ''system'')] # ms"
    if w: "json_loads out body = Inr (JObj d)"
      "float_if_given out (map_of d ''temperature'') = Inr t"
      "map_of d ''messages'' = Some (JArr ms)" "map_of d ''model'' = Some m"
    using chat_try(1) [OF w refl, of dbg] by (simp add: system_message_def)
  from a b show ?thesis by blast
qed

theorem system_message_first_witness:
  "\<exists>c. upstream (snd (chat_completions False
           (fake_outside (Inr (JObj (hello_request @ [(''stream'', JBool True)])))
              (Inr chunk_stream)) [])) = [ChatCompletionsCreate c] \<and>
        kw_messages c =
          [JObj [(''content'', JStr system), (''role'', JStr ''system'')],
           JObj [(''role'', JStr ''user''), (''content'', JStr ''hello'')]]"
proof -
  let ?d = "hello_request @ [(''stream'', JBool True)]"
  let ?o = "fake_outside (Inr (JObj ?d)) (Inr chunk_stream)"
  have l: "json_loads ?o [] = Inr (JObj ?d)" by (simp add: fake_outside_def)
  have ms: "map_of ?d ''messages'' =
              Some (JArr [JObj [(''role'', JStr ''user''), (''content'', JStr ''hello'')]])"
    by (simp add: hello_request_def)
  have m: "map_of ?d ''model'' = Some (JStr ''gpt-4'')" by (simp add: hello_request_def)
  have t: "float_if_given ?o (map_of ?d ''temperature'') = Inr None"
    by (simp add: float_if_given_def hello_request_def)
  from system_message_first
    [where out = ?o and body = "[]" and d = ?d and m = "JStr ''gpt-4''" and t = None
       and dbg = False
       and ms = "[JObj [(''role'', JStr ''user''), (''content'', JStr ''hello'')]]"]
    l ms m t
  show ?thesis by blast
qed

text \<open>
  C3. For a request whose \<open>stream\<close> is true, a response, when there is one, is the
  streaming response of the object the upstream call returned: one frame for each
  chunk that object yields, in the order it yields them, each frame \<open>data: \<close>, the
  chunk's JSON text and two newlines. And when the upstream call of such a request
  succeeds, that response is what the handler returns.
\<close>

theorem streaming_frames:
  "(json_loads out body = Inr (JObj d) \<and> map_of d ''stream'' = Some (JBool True) \<and>
    fst (chat_completions dbg out body) = Inr resp \<longrightarrow>
      (\<exists>c res. upstream (snd (chat_completions dbg out body)) = [ChatCompletionsCreate c] \<and>
         kw_stream c = JBool True \<and> chat_completions_create out c = Inr res \<and>
         resp = StreamingResponse
                  (map (\<lambda>chunk. ''data: '' @ model_dump_json out chunk @ [CHR 0x0A, CHR 0x0A])
                     (fst (iterate out res)))
                  (snd (iterate out res)) ''application/x-ndjson'')) \<and>
   (json_loads out body = Inr (JObj d) \<and> map_of d ''stream'' = Some (JBool True) \<and>
    ChatCompletionsCreate c \<in> set (upstream (snd (chat_completions dbg out body))) \<and>
    chat_completions_create out c = Inr res \<longrightarrow>
      fst (chat_completions dbg out body) =
        Inr (StreamingResponse
               (map (\<lambda>chunk. ''data: '' @ model_dump_json out chunk @ [CHR 0x0A, CHR 0x0A])
                  (fst (iterate out res)))
               (snd (iterate out res)) ''application/x-ndjson''))"
proof -
  let ?frames = "\<lambda>res. StreamingResponse
                   (map (\<lambda>chunk. ''data: '' @ model_dump_json out chunk @ [CHR 0x0A, CHR 0x0A])
                      (fst (iterate out res)))
                   (snd (iterate out res)) ''application/x-ndjson''"
  have a: "\<exists>c res. upstream (snd (chat_completions dbg out body)) = [ChatCompletionsCreate c] \<and>
             kw_stream c = JBool True \<and> chat_completions_create out c = Inr res \<and>
             resp = ?frames res"
    if l: "json_loads out body = Inr (JObj d)"
      and s: "map_of d ''stream'' = Some (JBool True)"
      and r: "fst (chat_completions dbg out body) = Inr resp"
  proof (cases rule: chat_cases [of out body])
    case (loads_raises e)
    with r show ?thesis by (simp add: chat_exit_loads)
  next
    case (not_dict data)
    with r show ?thesis by (simp add: chat_exit_not_dict)
  next
    case (float_raises d' e)
    with r show ?thesis by (simp add: chat_exit_float)
  next
    case (no_messages d' t)
    with r show ?thesis by (simp add: chat_exit_no_messages)
  next
    case (messages_not_list d' t v)
    with r show ?thesis by (simp add: chat_exit_messages_not_list)
  next
    case (no_model d' t ms)
    with r show ?thesis by (simp add: chat_exit_no_model reraise_fst)
  next
    case (try_block d' t ms m)
    with l have dd: "d' = d" by simp
    let ?c = "\<lparr>kw_model = m, kw_messages = system_message # ms,
                kw_tools = map_of d' ''tools'',
                kw_tool_choice = (if map_of d' ''tools'' \<noteq> None then Some ''auto'' else None),
                kw_temperature = t,
                kw_stream = (case map_of d' ''stream'' of None \<Rightarrow> JBool False | Some s \<Rightarrow> s)\<rparr>"
    note ct = chat_try [OF try_block refl, of dbg]
    have ks: "kw_stream ?c = JBool True" using s dd by simp
    from ct(2) r obtain res where res: "chat_completions_create out ?c = Inr res"
      by (cases "chat_completions_create out ?c") (simp_all add: reraise_fst)
    from ct(2) r res ks have "resp = ?frames res"
      by (simp add: py_truth_def)
    with ct(1) ks res show ?thesis by blast
  qed
  have b: "fst (chat_completions dbg out body) = Inr (?frames res)"
    if l: "json_loads out body = Inr (JObj d)"
      and s: "map_of d ''stream'' = Some (JBool True)"
      and c: "ChatCompletionsCreate c \<in> set (upstream (snd (chat_completions dbg out body)))"
      and res: "chat_completions_create out c = Inr res"
  proof -
    from chat_call_made [OF c] l obtain t ms mo where
      w: "json_loads out body = Inr (JObj d)"
         "float_if_given out (map_of d ''temperature'') = Inr t"
         "map_of d ''messages'' = Some (JArr ms)" "map_of d ''model'' = Some mo"
      and call: "c = \<lparr>kw_model = mo, kw_messages = system_message # ms,
                      kw_tools = map_of d ''tools'',
                      kw_tool_choice = (if map_of d ''tools'' \<noteq> None then Some ''auto'' else None),
                      kw_temperature = t,
                      kw_stream = (case map_of d ''stream'' of None \<Rightarrow> JBool False | Some s \<Rightarrow> s)\<rparr>"
      by auto
    from call s have ks: "kw_stream c = JBool True" by simp
    from chat_try(2) [OF w call, of dbg] res ks show ?thesis
      by (simp add: py_truth_def)
  qed
  from a b show ?thesis by blast
qed

theorem streaming_frames_witness:
  "fst (chat_completions True
          (fake_outside (Inr (JObj (hello_request @ [(''stream'', JBool True)])))
             (Inr chunk_stream)) []) =
     Inr (StreamingResponse
            [''data: {chunk-1}'' @ [CHR 0x0A, CHR 0x0A],
             ''data: {chunk-2}'' @ [CHR 0x0A, CHR 0x0A]]
            None ''application/x-ndjson'')"
proof -
  let ?d = "hello_request @ [(''stream'', JBool True)]"
  let ?o = "fake_outside (Inr (JObj ?d)) (Inr chunk_stream)"
  let ?c = "hello_call\<lparr>kw_stream := JBool True\<rparr>"
  have l: "json_loads ?o [] = Inr (JObj ?d)" by (simp add: fake_outside_def)
  have s: "map_of ?d ''stream'' = Some (JBool True)" by (simp add: hello_request_def)
  have m: "ChatCompletionsCreate ?c \<in> set (upstream (snd (chat_completions True ?o [])))"
    by code_simp
  have r: "chat_completions_create ?o ?c = Inr chunk_stream" by (simp add: fake_outside_def)
  from streaming_frames
    [where out = ?o and body = "[]" and d = ?d and dbg = True and c = ?c
       and res = chunk_stream]
    l s m r
  show ?thesis by (simp add: fake_outside_def chunk_stream_def)
qed




text \<open>
  C5. Whenever \<open>chat_completions\<close> calls upstream, the \<open>tools\<close> argument is what the
  request has under \<open>tools\<close> (\<open>NOT_GIVEN\<close> when the key is not there), unchanged, and
  \<open>tool_choice\<close> is \<open>auto\<close> when the request has the key \<open>tools\<close> and \<open>NOT_GIVEN\<close>
  when it has not. A request with a list of messages, a model and a usable
  temperature leads to exactly one such call.
\<close>

theorem tool_choice_follows_tools:
  "(ChatCompletionsCreate c \<in> set (upstream (snd (chat_completions dbg out body))) \<longrightarrow>
      (\<exists>d. json_loads out body = Inr (JObj d) \<and> kw_tools c = map_of d ''tools'' \<and>
         kw_tool_choice c =
           (if ''tools'' \<in> dom (map_of d) then Some ''auto'' else None))) \<and>
   (json_loads out body = Inr (JObj d) \<and> map_of d ''messages'' = Some (JArr ms) \<and>
    map_of d ''model'' = Some m \<and>
    float_if_given out (map_of d ''temperature'') = Inr t \<longrightarrow>
      (\<exists>c. upstream (snd (chat_completions dbg out body)) = [ChatCompletionsCreate c] \<and>
         kw_tools c = map_of d ''tools'' \<and>
         kw_tool_choice c =
           (if ''tools'' \<in> dom (map_of d) then Some ''auto'' else None)))"
proof -
  have a: "\<exists>d. json_loads out body = Inr (JObj d) \<and> kw_tools c = map_of d ''tools'' \<and>
             kw_tool_choice c =
               (if ''tools'' \<in> dom (map_of d) then Some ''auto'' else None)"
    if "ChatCompletionsCreate c \<in> set (upstream (snd (chat_completions dbg out body)))"
    using chat_call_made [OF that] by (auto simp: dom_def)
  have b: "\<exists>c. upstream (snd (chat_completions dbg out body)) = [ChatCompletionsCreate c] \<and>
             kw_tools c = map_of d ''tools'' \<and>
             kw_tool_choice c =
               (if ''tools'' \<in> dom (map_of d) then Some ''auto'' else None)"
    if w: "json_loads out body = Inr (JObj d)"
      "float_if_given out (map_of d ''temperature'') = Inr t"
      "map_of d ''messages'' = Some (JArr ms)" "map_of d ''model'' = Some m"
    using chat_try(1) [OF w refl, of dbg] by (auto simp: dom_def)
  from a b show ?thesis by blast
qed

theorem tool_choice_follows_tools_witness:
  "(\<exists>c. upstream (snd (chat_completions False
            (fake_outside (Inr (JObj (hello_request @ [(''tools'', JArr [JStr ''search''])])))
               (Inr completion_object)) [])) = [ChatCompletionsCreate c] \<and>
         kw_tools c = Some (JArr [JStr ''search'']) \<and> kw_tool_choice c = Some ''auto'') \<and>
   (\<exists>c. upstream (snd (chat_completions False
            (fake_outside (Inr (JObj hello_request)) (Inr completion_object)) [])) =
           [ChatCompletionsCreate c] \<and>
         kw_tools c = None \<and> kw_tool_choice c = None)"
proof -
  let ?user = "[JObj [(''role'', JStr ''user''), (''content'', JStr ''hello'')]]"
  let ?d1 = "hello_request @ [(''tools'', JArr [JStr ''search''])]"
  let ?o1 = "fake_outside (Inr (JObj ?d1)) (Inr completion_object)"
  let ?d2 = "hello_request"
  let ?o2 = "fake_outside (Inr (JObj ?d2)) (Inr completion_object)"
  have l1: "json_loads ?o1 [] = Inr (JObj ?d1)" by (simp add: fake_outside_def)
  have ms1: "map_of ?d1 ''messages'' = Some (JArr ?user)" by (simp add: hello_request_def)
  have m1: "map_of ?d1 ''model'' = Some (JStr ''gpt-4'')" by (simp add: hello_request_def)
  have t1: "float_if_given ?o1 (map_of ?d1 ''temperature'') = Inr None"
    by (simp add: float_if_given_def hello_request_def)
  have tools1: "map_of ?d1 ''tools'' = Some (JArr [JStr ''search''])"
    by (simp add: hello_request_def)
  have l2: "json_loads ?o2 [] = Inr (JObj ?d2)" by (simp add: fake_outside_def)
  have ms2: "map_of ?d2 ''messages'' = Some (JArr ?user)" by (simp add: hello_request_def)
  have m2: "map_of ?d2 ''model'' = Some (JStr ''gpt-4'')" by (simp add: hello_request_def)
  have t2: "float_if_given ?o2 (map_of ?d2 ''temperature'') = Inr None"
    by (simp add: float_if_given_def hello_request_def)
  have tools2: "map_of ?d2 ''tools'' = None" by (simp add: hello_request_def)
  from tool_choice_follows_tools
    [where out = ?o1 and body = "[]" and d = ?d1 and m = "JStr ''gpt-4''" and t = None
       and dbg = False and ms = ?user]
    l1 ms1 m1 t1
  have a: "\<exists>c. upstream (snd (chat_completions False ?o1 [])) = [ChatCompletionsCreate c] \<and>
             kw_tools c = map_of ?d1 ''tools'' \<and>
             kw_tool_choice c =
               (if ''tools'' \<in> dom (map_of ?d1) then Some ''auto'' else None)"
    by blast
  from tool_choice_follows_tools
    [where out = ?o2 and body = "[]" and d = ?d2 and m = "JStr ''gpt-4''" and t = None
       and dbg = False and ms = ?user]
    l2 ms2 m2 t2
  have b: "\<exists>c. upstream (snd (chat_completions False ?o2 [])) = [ChatCompletionsCreate c] \<and>
             kw_tools c = map_of ?d2 ''tools'' \<and>
             kw_tool_choice c =
               (if ''tools'' \<in> dom (map_of ?d2) then Some ''auto'' else None)"
    by blast
  have in1: "''tools'' \<in> dom (map_of ?d1)" using tools1 by (simp only: domIff) simp
  have in2: "''tools'' \<notin> dom (map_of ?d2)" using tools2 by (simp only: domIff) simp
  from a tools1 in1 have a': "\<exists>c. upstream (snd (chat_completions False ?o1 [])) =
                 [ChatCompletionsCreate c] \<and>
               kw_tools c = Some (JArr [JStr ''search'']) \<and> kw_tool_choice c = Some ''auto''"
    by (simp only: if_True)
  from b tools2 in2 have b': "\<exists>c. upstream (snd (chat_completions False ?o2 [])) =
                 [ChatCompletionsCreate c] \<and>
               kw_tools c = None \<and> kw_tool_choice c = None"
    by (simp only: if_False)
  from a' b' show ?thesis by (rule conjI)
qed

text \<open>
  C8. On every route and for every request body, two environments that differ only
  in \<open>GPTSCRIPT_DEBUG\<close> give the same result (the response with its status, body and
  frames, or the exception raised) and the same calls upstream; only the printed
  lines can differ, and with the variable unset or \<open>false\<close> nothing is printed.
\<close>

theorem debug_flag_only_logs:
  "fst (app (environ(''GPTSCRIPT_DEBUG'' := a)) out r body) =
     fst (app (environ(''GPTSCRIPT_DEBUG'' := b)) out r body) \<and>
   upstream (snd (app (environ(''GPTSCRIPT_DEBUG'' := a)) out r body)) =
     upstream (snd (app (environ(''GPTSCRIPT_DEBUG'' := b)) out r body)) \<and>
   printed (snd (app (environ(''GPTSCRIPT_DEBUG'' := None)) out r body)) = [] \<and>
   printed (snd (app (environ(''GPTSCRIPT_DEBUG'' \<mapsto> ''false'')) out r body)) = []"
proof -
  have u: "uri (environ(''GPTSCRIPT_DEBUG'' := a)) = uri (environ(''GPTSCRIPT_DEBUG'' := b))"
    by (simp add: uri_def environ_get_def)
  have q1: "\<not> debug (environ(''GPTSCRIPT_DEBUG'' := None))"
    by (simp add: debug_def environ_get_def)
  have q2: "\<not> debug (environ(''GPTSCRIPT_DEBUG'' \<mapsto> ''false''))"
    by (simp add: debug_def environ_get_def)
  from app_debug_independent [OF u, of out r body] app_quiet [OF q1, of out r body]
    app_quiet [OF q2, of out r body]
  show ?thesis by simp
qed

text \<open>
  The lookup of \<open>data["model"]\<close> stands in the argument list of the upstream call,
  inside the \<open>try\<close> block: a request without \<open>model\<close> makes no call upstream and
  ends in an \<open>HTTPException\<close> with status 500 and the text of the KeyError.
\<close>

lemma chat_missing_model:
  assumes "json_loads out body = Inr (JObj d)"
    and "float_if_given out (map_of d ''temperature'') = Inr t"
    and "map_of d ''messages'' = Some (JArr ms)" and "map_of d ''model'' = None"
  shows "fst (chat_completions dbg out body) =
           Inl (HTTPException 500 (''Error occurred: '' @ [CHR 0x27] @ ''model'' @ [CHR 0x27]))"
    and "upstream (snd (chat_completions dbg out body)) = []"
  using assms
  by (simp_all add: chat_exit_no_model reraise_fst KeyError_def plain_exn_def py_repr_key_def)

text \<open>
  C9, as the code has it. A body that \<open>json.loads\<close> rejects, and a body that parses
  to a dictionary without the key \<open>messages\<close>, make \<open>chat_completions\<close> raise an
  exception that is not an \<open>HTTPException\<close>: the decode error as it is, a KeyError
  for \<open>messages\<close> (or the error of \<open>float\<close>, raised before that lookup), with nothing
  printed by the handler and no call upstream. The policy applies only to failures
  raised inside the \<open>try\<close> block: an \<open>HTTPException\<close> from this handler means that
  the body was a dictionary with a list under \<open>messages\<close>, and that one of three
  things raised: the lookup of the key \<open>model\<close> (no call was made upstream), the
  one call made upstream, or, after that call returned for a request that does not
  stream, \<open>jsonable_encoder\<close> or the rendering of the JSON response.
\<close>

theorem chat_input_errors_untranslated:
  "(json_loads out body = Inl e \<longrightarrow>
      chat_completions dbg out body = (Inl (Unhandled e), no_effects)) \<and>
   (json_loads out body = Inr (JObj d) \<and> map_of d ''messages'' = None \<longrightarrow>
      (\<exists>e'. chat_completions dbg out body = (Inl (Unhandled e'), no_effects))) \<and>
   (json_loads out body = Inr (JObj d) \<and> map_of d ''messages'' = None \<and>
    float_if_given out (map_of d ''temperature'') = Inr t \<longrightarrow>
      chat_completions dbg out body = (Inl (Unhandled (KeyError ''messages'')), no_effects)) \<and>
   (fst (chat_completions dbg out body) = Inl (HTTPException code detail) \<longrightarrow>
      (\<exists>d ms. json_loads out body = Inr (JObj d) \<and>
         map_of d ''messages'' = Some (JArr ms) \<and>
         (map_of d ''model'' = None \<and> upstream (snd (chat_completions dbg out body)) = [] \<or>
          (\<exists>c. upstream (snd (chat_completions dbg out body)) = [ChatCompletionsCreate c] \<and>
             ((\<exists>e'. chat_completions_create out c = Inl e') \<or>
              (\<exists>res. chat_completions_create out c = Inr res \<and>
                 \<not> py_truth (float_truth out) (kw_stream c) \<and>
                 ((\<exists>e'. jsonable_encoder out res = Inl e') \<or>
                  (\<exists>content e'. jsonable_encoder out res = Inr content \<and>
                     render out content = Some e'))))))))"
proof -
  have a: "\<exists>e'. chat_completions dbg out body = (Inl (Unhandled e'), no_effects)"
    if "json_loads out body = Inr (JObj d)" "map_of d ''messages'' = None"
    using that chat_exit_float [of out body d _ dbg] chat_exit_no_messages [of out body d _ dbg]
    by (cases "float_if_given out (map_of d ''temperature'')") auto
  have b: "\<exists>d ms. json_loads out body = Inr (JObj d) \<and>
             map_of d ''messages'' = Some (JArr ms) \<and>
             (map_of d ''model'' = None \<and> upstream (snd (chat_completions dbg out body)) = [] \<or>
              (\<exists>c. upstream (snd (chat_completions dbg out body)) = [ChatCompletionsCreate c] \<and>
                 ((\<exists>e'. chat_completions_create out c = Inl e') \<or>
                  (\<exists>res. chat_completions_create out c = Inr res \<and>
                     \<not> py_truth (float_truth out) (kw_stream c) \<and>
                     ((\<exists>e'. jsonable_encoder out res = Inl e') \<or>
                      (\<exists>content e'. jsonable_encoder out res = Inr content \<and>
                         render out content = Some e'))))))"
    if r: "fst (chat_completions dbg out body) = Inl (HTTPException code detail)"
  proof (cases rule: chat_cases [of out body])
    case (loads_raises e)
    with r show ?thesis by (simp add: chat_exit_loads)
  next
    case (not_dict data)
    with r show ?thesis by (simp add: chat_exit_not_dict)
  next
    case (float_raises d' e)
    with r show ?thesis by (simp add: chat_exit_float)
  next
    case (no_messages d' t)
    with r show ?thesis by (simp add: chat_exit_no_messages)
  next
    case (messages_not_list d' t v)
    with r show ?thesis by (simp add: chat_exit_messages_not_list)
  next
    case (no_model d' t ms)
    from chat_missing_model(2) [OF no_model, of dbg] no_model show ?thesis by blast
  next
    case (try_block d' t ms m)
    let ?c = "\<lparr>kw_model = m, kw_messages = system_message # ms,
                kw_tools = map_of d' ''tools'',
                kw_tool_choice = (if map_of d' ''tools'' \<noteq> None then Some ''auto'' else None),
                kw_temperature = t,
                kw_stream = (case map_of d' ''stream'' of None \<Rightarrow> JBool False | Some s \<Rightarrow> s)\<rparr>"
    note ct = chat_try [OF try_block refl, of dbg]
    have "(\<exists>e'. chat_completions_create out ?c = Inl e') \<or>
          (\<exists>res. chat_completions_create out ?c = Inr res \<and>
             \<not> py_truth (float_truth out) (kw_stream ?c) \<and>
             ((\<exists>e'. jsonable_encoder out res = Inl e') \<or>
              (\<exists>content e'. jsonable_encoder out res = Inr content \<and>
                 render out content = Some e')))"
    proof (cases "chat_completions_create out ?c")
      case (Inl e')
      then show ?thesis by blast
    next
      case (Inr res)
      with ct(2) r have ns: "\<not> py_truth (float_truth out) (kw_stream ?c)"
        by (auto split: if_splits)
      with ct(2) r Inr obtain e' where "json_response out res = Inl e'"
        by (cases "json_response out res") auto
      then have "(\<exists>e'. jsonable_encoder out res = Inl e') \<or>
                 (\<exists>content e'. jsonable_encoder out res = Inr content \<and>
                    render out content = Some e')"
        by (auto simp add: json_response_def split: sum.splits option.splits)
      with Inr ns show ?thesis by blast
    qed
    with ct(1) try_block show ?thesis by blast
  qed
  from a b chat_exit_loads [of out body e dbg] chat_exit_no_messages [of out body d t dbg]
  show ?thesis by blast
qed

theorem chat_input_errors_untranslated_witness:
  "chat_completions True
     (fake_outside
        (Inl (plain_exn ''JSONDecodeError'' ''Expecting value: line 1 column 1 (char 0)''))
        (Inr completion_object)) ''oops'' =
     (Inl (Unhandled
        (plain_exn ''JSONDecodeError'' ''Expecting value: line 1 column 1 (char 0)'')),
      no_effects) \<and>
   chat_completions True
     (fake_outside (Inr (JObj [(''model'', JStr ''gpt-4'')])) (Inr completion_object)) [] =
     (Inl (Unhandled (KeyError ''messages'')), no_effects) \<and>
   (\<exists>c e'. upstream (snd (chat_completions True
               (fake_outside (Inr (JObj hello_request)) (Inl rate_limited)) [])) =
             [ChatCompletionsCreate c] \<and>
           chat_completions_create
             (fake_outside (Inr (JObj hello_request)) (Inl rate_limited)) c = Inl e')"
proof -
  let ?e = "plain_exn ''JSONDecodeError'' ''Expecting value: line 1 column 1 (char 0)''"
  let ?o1 = "fake_outside (Inl ?e) (Inr completion_object)"
  let ?d2 = "[(''model'', JStr ''gpt-4'')]"
  let ?o2 = "fake_outside (Inr (JObj ?d2)) (Inr completion_object)"
  let ?o3 = "fake_outside (Inr (JObj hello_request)) (Inl rate_limited)"
  have l1: "json_loads ?o1 ''oops'' = Inl ?e" by (simp add: fake_outside_def)
  have l2: "json_loads ?o2 [] = Inr (JObj ?d2)" by (simp add: fake_outside_def)
  have ms2: "map_of ?d2 ''messages'' = None" by simp
  have t2: "float_if_given ?o2 (map_of ?d2 ''temperature'') = Inr None"
    by (simp add: float_if_given_def)
  have r3: "fst (chat_completions True ?o3 []) =
              Inl (HTTPException 429 ''Error occurred: rate limited'')"
    by code_simp
  have l3: "json_loads ?o3 [] = Inr (JObj hello_request)" by (simp add: fake_outside_def)
  have m3: "map_of hello_request ''model'' \<noteq> None" by (simp add: hello_request_def)
  from chat_input_errors_untranslated
    [where out = ?o1 and body = "''oops''" and e = ?e and dbg = True] l1
  have a: "chat_completions True ?o1 ''oops'' = (Inl (Unhandled ?e), no_effects)"
    by blast
  from chat_input_errors_untranslated
    [where out = ?o2 and body = "[]" and d = ?d2 and t = None and dbg = True] l2 ms2 t2
  have b: "chat_completions True ?o2 [] = (Inl (Unhandled (KeyError ''messages'')), no_effects)"
    by blast
  from chat_input_errors_untranslated
    [where out = ?o3 and body = "[]" and dbg = True and code = 429
       and detail = "''Error occurred: rate limited''"] r3
  have "\<exists>d ms. json_loads ?o3 [] = Inr (JObj d) \<and>
          map_of d ''messages'' = Some (JArr ms) \<and>
          (map_of d ''model'' = None \<and> upstream (snd (chat_completions True ?o3 [])) = [] \<or>
           (\<exists>c. upstream (snd (chat_completions True ?o3 [])) = [ChatCompletionsCreate c] \<and>
              ((\<exists>e'. chat_completions_create ?o3 c = Inl e') \<or>
               (\<exists>res. chat_completions_create ?o3 c = Inr res \<and>
                  \<not> py_truth (float_truth ?o3) (kw_stream c) \<and>
                  ((\<exists>e'. jsonable_encoder ?o3 res = Inl e') \<or>
                   (\<exists>content e'. jsonable_encoder ?o3 res = Inr content \<and>
                      render ?o3 content = Some e'))))))"
    by blast
  moreover have "\<And>c res. chat_completions_create ?o3 c \<noteq> Inr res"
    by (simp add: fake_outside_def)
  ultimately have "\<exists>d ms. json_loads ?o3 [] = Inr (JObj d) \<and>
          map_of d ''messages'' = Some (JArr ms) \<and>
          (map_of d ''model'' = None \<and> upstream (snd (chat_completions True ?o3 [])) = [] \<or>
           (\<exists>c e'. upstream (snd (chat_completions True ?o3 [])) = [ChatCompletionsCreate c] \<and>
              chat_completions_create ?o3 c = Inl e'))"
    by blast
  with l3 m3 have c: "\<exists>c e'. upstream (snd (chat_completions True ?o3 [])) =
                         [ChatCompletionsCreate c] \<and>
                       chat_completions_create ?o3 c = Inl e'"
    by auto
  from a b c show ?thesis by blast
qed

text \<open>
  C9 as it is written says that the policy applies only to failures raised by the
  upstream call. A request with messages and no \<open>model\<close> is outside that: the handler
  raises the \<open>HTTPException\<close> of the policy, with status 500 and the text of the
  KeyError, and makes no call upstream, although the upstream would have answered.
\<close>

theorem chat_missing_model_counterexample:
  "fst (chat_completions False
          (fake_outside (Inr (JObj [(''messages'', JArr [])])) (Inr completion_object)) []) =
     Inl (HTTPException 500 (''Error occurred: '' @ [CHR 0x27] @ ''model'' @ [CHR 0x27])) \<and>
   upstream (snd (chat_completions False
          (fake_outside (Inr (JObj [(''messages'', JArr [])])) (Inr completion_object)) [])) = []"
  by code_simp

end
